theory Spec2Isabelle
  imports Main "HOL-Library.Sublist" "HOL-Library.AList" "HOL-Library.Log_Nat" "HOL-Library.Word"
begin

section \<open>Python values used by the converter\<close>

text \<open>
  Text (\<open>str\<close>) is modelled as \<^typ>\<open>string\<close>, binary data (\<open>bytes\<close>) as a list of
  8-bit words. An optional argument is an \<^typ>\<open>'a option\<close>; Python's truth test
  \<open>if x\<close> / \<open>if not x\<close> on such a value is \<open>truthy\<close>: \<open>None\<close> and the empty
  sequence are false.
\<close>

type_synonym bytes = "8 word list"

definition truthy :: "'a list option \<Rightarrow> bool" where
  "truthy v = (case v of None \<Rightarrow> False | Some s \<Rightarrow> s \<noteq> [])"

text \<open>\<open>needle in haystack\<close> on strings.\<close>

fun str_contains :: "string \<Rightarrow> string \<Rightarrow> bool" where
  "str_contains needle [] = (needle = [])"
| "str_contains needle (c # cs) = (prefix needle (c # cs) \<or> str_contains needle cs)"

text \<open>
  Exceptions are values. The two wrappers of the converter
  (\<open>raise Exception(f"Error ...: {e}")\<close>) keep the message prefix and the cause.
\<close>

datatype error =
    ZeroDivisionError
  | OverflowError
  | FileNotFoundError
  | IsADirectoryError
  | PermissionError
  | UnicodeError
  | HTTPError int
  | ConnectionError
  | LibraryError string
  | Wrapped string error

section \<open>The option set (\<open>MarkdownToPDFConverter.__init__\<close>)\<close>

text \<open>
  \<open>self.pdf_options\<close> is a dictionary from option names to a value or \<open>None\<close>
  (a flag without value). Dictionaries keep insertion order; an association list
  with \<open>map_of\<close> for lookup and \<open>AList.update\<close> for assignment behaves the same on
  lists with distinct keys.
\<close>

type_synonym options = "(string \<times> string option) list"

definition pdf_options_init :: options where
  "pdf_options_init =
    [(''page-size'', Some ''A4''),
     (''margin-top'', Some ''0.75in''),
     (''margin-right'', Some ''0.75in''),
     (''margin-bottom'', Some ''0.75in''),
     (''margin-left'', Some ''0.75in''),
     (''encoding'', Some ''UTF-8''),
     (''no-outline'', None),
     (''enable-local-file-access'', None)]"

section \<open>Document assembler (\<open>create_full_html\<close>)\<close>

definition css_styles :: string where
  \<open>css_styles = concat
    [''\<newline>'',
     ''        <style>\<newline>'',
     ''            body {\<newline>'',
     ''                font-family: -apple-system, BlinkMacSystemFont, 'Segoe UI', Roboto, sans-serif;\<newline>'',
     ''                line-height: 1.6;\<newline>'',
     ''                color: #333;\<newline>'',
     ''                max-width: 100%;\<newline>'',
     ''                margin: 0;\<newline>'',
     ''                padding: 20px;\<newline>'',
     ''            }\<newline>'',
     ''\<newline>'',
     ''            h1, h2, h3, h4, h5, h6 {\<newline>'',
     ''                color: #2c3e50;\<newline>'',
     ''                margin-top: 2em;\<newline>'',
     ''                margin-bottom: 1em;\<newline>'',
     ''            }\<newline>'',
     ''\<newline>'',
     ''            h1 { font-size: 2.5em; border-bottom: 2px solid #3498db; padding-bottom: 10px; }\<newline>'',
     ''            h2 { font-size: 2em; border-bottom: 1px solid #bdc3c7; padding-bottom: 5px; }\<newline>'',
     ''            h3 { font-size: 1.5em; }\<newline>'',
     ''\<newline>'',
     ''            p { margin-bottom: 1em; text-align: justify; }\<newline>'',
     ''\<newline>'',
     ''            img {\<newline>'',
     ''                max-width: 100%;\<newline>'',
     ''                height: auto;\<newline>'',
     ''                display: block;\<newline>'',
     ''                margin: 20px auto;\<newline>'',
     ''                border-radius: 5px;\<newline>'',
     ''                box-shadow: 0 2px 10px rgba(0,0,0,0.1);\<newline>'',
     ''            }\<newline>'',
     ''\<newline>'',
     ''            code {\<newline>'',
     ''                background-color: #f8f9fa;\<newline>'',
     ''                padding: 2px 4px;\<newline>'',
     ''                border-radius: 3px;\<newline>'',
     ''                font-family: 'Courier New', monospace;\<newline>'',
     ''                font-size: 0.9em;\<newline>'',
     ''            }\<newline>'',
     ''\<newline>'',
     ''            pre {\<newline>'',
     ''                background-color: #f8f9fa;\<newline>'',
     ''                padding: 15px;\<newline>'',
     ''                border-radius: 5px;\<newline>'',
     ''                border-left: 4px solid #3498db;\<newline>'',
     ''                overflow-x: auto;\<newline>'',
     ''                margin: 1em 0;\<newline>'',
     ''            }\<newline>'',
     ''\<newline>'',
     ''            pre code {\<newline>'',
     ''                background: none;\<newline>'',
     ''                padding: 0;\<newline>'',
     ''            }\<newline>'',
     ''\<newline>'',
     ''            table {\<newline>'',
     ''                border-collapse: collapse;\<newline>'',
     ''                width: 100%;\<newline>'',
     ''                margin: 1em 0;\<newline>'',
     ''            }\<newline>'',
     ''\<newline>'',
     ''            th, td {\<newline>'',
     ''                border: 1px solid #ddd;\<newline>'',
     ''                padding: 12px;\<newline>'',
     ''                text-align: left;\<newline>'',
     ''            }\<newline>'',
     ''\<newline>'',
     ''            th {\<newline>'',
     ''                background-color: #f2f2f2;\<newline>'',
     ''                font-weight: bold;\<newline>'',
     ''            }\<newline>'',
     ''\<newline>'',
     ''            blockquote {\<newline>'',
     ''                border-left: 4px solid #3498db;\<newline>'',
     ''                margin: 1em 0;\<newline>'',
     ''                padding-left: 20px;\<newline>'',
     ''                color: #666;\<newline>'',
     ''                font-style: italic;\<newline>'',
     ''            }\<newline>'',
     ''\<newline>'',
     ''            ul, ol {\<newline>'',
     ''                margin: 1em 0;\<newline>'',
     ''                padding-left: 2em;\<newline>'',
     ''            }\<newline>'',
     ''\<newline>'',
     ''            li {\<newline>'',
     ''                margin-bottom: 0.5em;\<newline>'',
     ''            }\<newline>'',
     ''\<newline>'',
     ''            a {\<newline>'',
     ''                color: #3498db;\<newline>'',
     ''                text-decoration: none;\<newline>'',
     ''            }\<newline>'',
     ''\<newline>'',
     ''            a:hover {\<newline>'',
     ''                text-decoration: underline;\<newline>'',
     ''            }\<newline>'',
     ''        </style>\<newline>'',
     ''        '']\<close>

definition default_title :: string where
  "default_title = ''Converted Document''"

text \<open>
  The \<open>title\<close> parameter has the default value \<open>"Converted Document"\<close>: \<open>None\<close> is
  a call that omits the argument, \<open>Some t\<close> a call that passes \<open>t\<close>.
\<close>

definition create_full_html :: "string \<Rightarrow> string option \<Rightarrow> string" where
  \<open>create_full_html html_content title_arg =
    (let title = (case title_arg of None \<Rightarrow> default_title | Some t \<Rightarrow> t) in
      concat
       [''\<newline>'',
        ''        <!DOCTYPE html>\<newline>'',
        ''        <html>\<newline>'',
        ''        <head>\<newline>'',
        ''            <meta charset="UTF-8">\<newline>'',
        ''            <title>'', title, ''</title>\<newline>'',
        ''            '', css_styles, ''\<newline>'',
        ''        </head>\<newline>'',
        ''        <body>\<newline>'',
        ''            '', html_content, ''\<newline>'',
        ''        </body>\<newline>'',
        ''        </html>\<newline>'',
        ''        ''])\<close>


section \<open>Paths\<close>

text \<open>
  The converter calls \<open>os.path\<close> and \<open>pathlib.Path\<close>. Both are modelled with their
  POSIX behaviour (separator \<open>/\<close>, no drive letters).
\<close>

subsection \<open>\<open>os.path\<close>\<close>

definition isabs :: "string \<Rightarrow> bool" where
  "isabs s = prefix ''/'' s"

text \<open>\<open>s.rstrip('/')\<close>.\<close>

definition rstrip_sep :: "string \<Rightarrow> string" where
  "rstrip_sep s = rev (dropWhile (\<lambda>c. c = CHR ''/'') (rev s))"

text \<open>
  \<open>dirname p\<close>: the part of \<open>p\<close> up to and including its last separator, with the
  trailing separators removed unless that part consists of separators only.
\<close>

definition dirname :: "string \<Rightarrow> string" where
  "dirname p =
    (let head = rev (dropWhile (\<lambda>c. c \<noteq> CHR ''/'') (rev p)) in
      if head \<noteq> [] \<and> dropWhile (\<lambda>c. c = CHR ''/'') head \<noteq> [] then rstrip_sep head else head)"

text \<open>\<open>os.path.join a b\<close> with two arguments.\<close>

definition join :: "string \<Rightarrow> string \<Rightarrow> string" where
  "join a b =
    (if prefix ''/'' b then b
     else if a = [] \<or> suffix ''/'' a then a @ b
     else a @ ''/'' @ b)"

subsection \<open>\<open>pathlib\<close>\<close>

text \<open>\<open>s.split(sep)\<close> for a one-character separator.\<close>

fun split_sep :: "char \<Rightarrow> string \<Rightarrow> string list" where
  "split_sep sep [] = [[]]"
| "split_sep sep (c # cs) =
    (if c = sep then [] # split_sep sep cs
     else (case split_sep sep cs of
             [] \<Rightarrow> [[c]]
           | w # ws \<Rightarrow> (c # w) # ws))"

text \<open>
  A pure path is its root (\<open>''''\<close>, \<open>''/''\<close>, or \<open>''//''\<close> for exactly two leading
  slashes) and its components; empty components and \<open>.\<close> are dropped when the
  string is parsed.
\<close>

record pure_path =
  path_root :: string
  path_parts :: "string list"

definition Path :: "string \<Rightarrow> pure_path" where
  "Path s =
    \<lparr> path_root = (if prefix ''//'' s \<and> \<not> prefix ''///'' s then ''//''
              else if prefix ''/'' s then ''/'' else ''''),
      path_parts = filter (\<lambda>x. x \<noteq> [] \<and> x \<noteq> ''.'') (split_sep (CHR ''/'') s) \<rparr>"

text \<open>\<open>str(path)\<close>.\<close>

fun join_parts :: "string list \<Rightarrow> string" where
  "join_parts [] = []"
| "join_parts [x] = x"
| "join_parts (x # y # ys) = x @ ''/'' @ join_parts (y # ys)"

definition str_path :: "pure_path \<Rightarrow> string" where
  "str_path p =
    (if path_root p = [] \<and> path_parts p = [] then ''.'' else path_root p @ join_parts (path_parts p))"

definition name :: "pure_path \<Rightarrow> string" where
  "name p = (if path_parts p = [] then [] else last (path_parts p))"

text \<open>\<open>s.rfind(c)\<close>: the highest index of \<open>c\<close> in \<open>s\<close>, or \<open>-1\<close>.\<close>

definition rfind :: "char \<Rightarrow> string \<Rightarrow> int" where
  "rfind c s =
    (if c \<in> set s then int (length s) - 1 - int (length (takeWhile (\<lambda>x. x \<noteq> c) (rev s)))
     else - 1)"

text \<open>
  \<open>suffix\<close> and \<open>stem\<close> of the final component: the suffix starts at the last dot
  unless that dot is the first or the last character of the name.
\<close>

definition name_suffix :: "string \<Rightarrow> string" where
  "name_suffix n =
    (let i = rfind (CHR ''.'') n in
      if 0 < i \<and> i < int (length n) - 1 then drop (nat i) n else [])"

definition name_stem :: "string \<Rightarrow> string" where
  "name_stem n =
    (let i = rfind (CHR ''.'') n in
      if 0 < i \<and> i < int (length n) - 1 then take (nat i) n else n)"

definition stem :: "pure_path \<Rightarrow> string" where
  "stem p = name_stem (name p)"

definition parent :: "pure_path \<Rightarrow> pure_path" where
  "parent p = (if path_parts p = [] then p else p\<lparr> path_parts := butlast (path_parts p) \<rparr>)"

text \<open>
  \<open>path / segment\<close>: a segment that starts with a separator replaces the path,
  any other segment contributes its own components.
\<close>

definition joinpath :: "pure_path \<Rightarrow> string \<Rightarrow> pure_path" where
  "joinpath p seg =
    (if prefix ''/'' seg then Path seg
     else p\<lparr> path_parts := path_parts p @ path_parts (Path seg) \<rparr>)"

text \<open>
  The specification's wording for the default destination, ``the source path with
  its extension replaced'': \<open>with_suffix\<close> of \<open>pathlib\<close>, which keeps every
  component but the last and replaces the last component's suffix. It raises
  \<open>ValueError\<close> on a path without a name.
\<close>

definition with_suffix :: "pure_path \<Rightarrow> string \<Rightarrow> pure_path option" where
  "with_suffix p ext =
    (if name p = [] then None
     else Some (p\<lparr> path_parts := butlast (path_parts p) @
                   [take (length (name p) - length (name_suffix (name p))) (name p) @ ext] \<rparr>))"


section \<open>Floating-point arithmetic of \<open>optimize_image\<close>\<close>

text \<open>
  \<open>ratio = max_width / img.width\<close> and \<open>img.height * ratio\<close> are computed in binary64.
  A finite float is modelled by the rational it denotes, and each operation by the
  exact result rounded to the nearest representable value, ties to even: 53
  significant bits, exponents from \<open>-1022\<close> (below that the spacing stays
  \<open>2^-1074\<close>), and no finite value of magnitude \<open>2^1024\<close> or more.
\<close>

definition two_pow :: "int \<Rightarrow> rat" where
  "two_pow e = (if 0 \<le> e then 2 ^ nat e else 1 / 2 ^ nat (- e))"

text \<open>For \<open>x > 0\<close>: the exponent \<open>e\<close> with \<open>2^e \<le> x < 2^(e+1)\<close>.\<close>

definition ilog2 :: "rat \<Rightarrow> int" where
  "ilog2 x =
    (if 1 \<le> x then bitlen \<lfloor>x\<rfloor> - 1
     else
      (let k = bitlen \<lfloor>1 / x\<rfloor> - 1
       in if x * two_pow k = 1 then - k else - k - 1))"

definition round_half_even :: "rat \<Rightarrow> int" where
  "round_half_even t =
    (let f = \<lfloor>t\<rfloor>; d = t - of_int f
     in if d < 1 / 2 then f
        else if 1 / 2 < d then f + 1
        else if even f then f else f + 1)"

text \<open>\<open>fl x\<close> is \<open>x\<close> rounded to binary64, \<open>None\<close> when the rounded magnitude is not finite.\<close>

definition fl :: "rat \<Rightarrow> rat option" where
  "fl x =
    (if x = 0 then Some 0
     else
      (let a = \<bar>x\<bar>;
           e = max (ilog2 a) (- 1022);
           q = two_pow (e - 52);
           r = of_int (round_half_even (a / q)) * q
       in if two_pow 1024 \<le> r then None else Some (sgn x * r)))"

text \<open>\<open>a / b\<close> on integers (true division, correctly rounded).\<close>

definition py_truediv :: "int \<Rightarrow> int \<Rightarrow> error + rat" where
  "py_truediv a b =
    (if b = 0 then Inl ZeroDivisionError
     else (case fl (of_int a / of_int b) of
             None \<Rightarrow> Inl OverflowError
           | Some r \<Rightarrow> Inr r))"

text \<open>\<open>int(x)\<close> on a finite float truncates towards zero.\<close>

definition py_int :: "rat \<Rightarrow> int" where
  "py_int x = (if 0 \<le> x then \<lfloor>x\<rfloor> else \<lceil>x\<rceil>)"

text \<open>
  \<open>int(h * ratio)\<close> for an integer \<open>h\<close> and a float \<open>ratio\<close>: \<open>h\<close> is converted to a
  float (\<open>OverflowError\<close> when it is too large), the product is rounded, and \<open>int\<close>
  raises \<open>OverflowError\<close> on an infinite product.
\<close>

definition scaled_height :: "int \<Rightarrow> rat \<Rightarrow> error + int" where
  "scaled_height h ratio =
    (case fl (of_int h) of
       None \<Rightarrow> Inl OverflowError
     | Some hf \<Rightarrow>
        (case fl (hf * ratio) of
           None \<Rightarrow> Inl OverflowError
         | Some p \<Rightarrow> Inr (py_int p)))"

section \<open>Image transcoder (\<open>optimize_image\<close>)\<close>

text \<open>
  The imaging library is a parameter: a decoded image is its mode, its size and
  its raster, and every library call either raises or returns.
\<close>

record image =
  mode :: string
  width :: int
  height :: int
  raster :: "nat list"

record imaging =
  Image_open :: "bytes \<Rightarrow> error + image"
  convert :: "image \<Rightarrow> string \<Rightarrow> error + image"
  resize :: "image \<Rightarrow> int \<times> int \<Rightarrow> string \<Rightarrow> error + image"
  save :: "image \<Rightarrow> string \<Rightarrow> int \<Rightarrow> bool \<Rightarrow> error + bytes"

text \<open>
  What the library documents and the properties below rely on: \<open>convert\<close> keeps
  the size, and \<open>resize\<close> returns an image of the requested size.
\<close>

definition imaging_contract :: "imaging \<Rightarrow> bool" where
  "imaging_contract lib =
    ((\<forall>img m img'. convert lib img m = Inr img' \<longrightarrow>
         width img' = width img \<and> height img' = height img) \<and>
     (\<forall>img w h f img'. resize lib img (w, h) f = Inr img' \<longrightarrow>
         width img' = w \<and> height img' = h))"

text \<open>Lines 68--76: decode, normalise the mode, shrink to \<open>max_width\<close>.\<close>

definition normalize_mode :: "imaging \<Rightarrow> image \<Rightarrow> error + image" where
  "normalize_mode lib img =
    (if mode img \<in> {''RGBA'', ''LA'', ''P''} then convert lib img ''RGB'' else Inr img)"

definition shrink :: "imaging \<Rightarrow> image \<Rightarrow> int \<Rightarrow> error + image" where
  "shrink lib img max_width =
    (if width img > max_width then
       (case py_truediv max_width (width img) of
          Inl e \<Rightarrow> Inl e
        | Inr ratio \<Rightarrow>
           (case scaled_height (height img) ratio of
              Inl e \<Rightarrow> Inl e
            | Inr new_height \<Rightarrow> resize lib img (max_width, new_height) ''LANCZOS''))
     else Inr img)"

definition prepare_image :: "imaging \<Rightarrow> bytes \<Rightarrow> int \<Rightarrow> error + image" where
  "prepare_image lib image_data max_width =
    (case Image_open lib image_data of
       Inl e \<Rightarrow> Inl e
     | Inr img \<Rightarrow>
        (case normalize_mode lib img of
           Inl e \<Rightarrow> Inl e
         | Inr img1 \<Rightarrow> shrink lib img1 max_width))"

text \<open>The body of the \<open>try\<close> block, and the function with its \<open>except Exception\<close>.\<close>

definition optimize_image_try :: "imaging \<Rightarrow> bytes \<Rightarrow> int \<Rightarrow> int \<Rightarrow> error + bytes" where
  "optimize_image_try lib image_data max_width quality =
    (case prepare_image lib image_data max_width of
       Inl e \<Rightarrow> Inl e
     | Inr img \<Rightarrow> save lib img ''JPEG'' quality True)"

definition optimize_image :: "imaging \<Rightarrow> bytes \<Rightarrow> int \<Rightarrow> int \<Rightarrow> bytes" where
  "optimize_image lib image_data max_width quality =
    (case optimize_image_try lib image_data max_width quality of
       Inl e \<Rightarrow> image_data
     | Inr out \<Rightarrow> out)"

text \<open>The default values of \<open>max_width\<close> and \<open>quality\<close>.\<close>

definition default_max_width :: int where
  "default_max_width = 800"

definition default_quality :: int where
  "default_quality = 85"


section \<open>The world outside the converter\<close>

text \<open>
  The file system maps a path string to what is found there: a regular file with
  its contents, a directory, or a file that cannot be opened. \<open>os.path.exists\<close> and
  \<open>open(p, 'rb').read()\<close> are the two ways the converter looks at it.
\<close>

datatype fnode = File bytes | Directory | NoAccess

type_synonym filesystem = "string \<rightharpoonup> fnode"

definition exists_path :: "filesystem \<Rightarrow> string \<Rightarrow> bool" where
  "exists_path fs p = (fs p \<noteq> None)"

definition read_bytes :: "filesystem \<Rightarrow> string \<Rightarrow> error + bytes" where
  "read_bytes fs p =
    (case fs p of
       None \<Rightarrow> Inl FileNotFoundError
     | Some (File b) \<Rightarrow> Inr b
     | Some Directory \<Rightarrow> Inl IsADirectoryError
     | Some NoAccess \<Rightarrow> Inl PermissionError)"

text \<open>
  \<open>requests.get\<close> either fails in transport (connection error, timeout, too many
  redirects) or returns a response with a status code and a body.
  \<open>raise_for_status\<close> raises for the status codes 400 to 599.
\<close>

datatype http_result = TransportError | Response int bytes

definition raise_for_status :: "int \<Rightarrow> error + unit" where
  "raise_for_status status =
    (if 400 \<le> status \<and> status < 600 then Inl (HTTPError status) else Inr ())"

section \<open>Image resolver (\<open>download_image\<close>)\<close>

definition is_remote :: "string \<Rightarrow> bool" where
  "is_remote url = (prefix ''http://'' url \<or> prefix ''https://'' url)"

definition request_headers :: "(string \<times> string) list" where
  "request_headers =
    [(''User-Agent'', ''Mozilla/5.0 (Windows NT 10.0; Win64; x64) AppleWebKit/537.36'')]"

definition request_timeout :: nat where
  "request_timeout = 30"

text \<open>
  The path a local reference is looked up at: relative references are joined to
  the directory of \<open>base_path\<close> when a base path is given.
\<close>

definition local_path :: "string \<Rightarrow> string option \<Rightarrow> string" where
  "local_path url base_path =
    (case base_path of
       Some b \<Rightarrow> (if b \<noteq> [] \<and> \<not> isabs url then join (dirname b) url else url)
     | None \<Rightarrow> url)"

text \<open>
  The body of the \<open>try\<close> block: \<open>Inl\<close> is an exception raised inside it, \<open>Inr None\<close>
  the explicit \<open>return None\<close>.
\<close>

definition download_image_try ::
  "(string \<Rightarrow> (string \<times> string) list \<Rightarrow> nat \<Rightarrow> http_result) \<Rightarrow> filesystem \<Rightarrow>
   string \<Rightarrow> string option \<Rightarrow> error + bytes option" where
  "download_image_try get fs url base_path =
    (if \<not> is_remote url then
       (let p = local_path url base_path in
         if exists_path fs p then
           (case read_bytes fs p of Inl e \<Rightarrow> Inl e | Inr b \<Rightarrow> Inr (Some b))
         else Inr None)
     else
       (case get url request_headers request_timeout of
          TransportError \<Rightarrow> Inl ConnectionError
        | Response status content \<Rightarrow>
           (case raise_for_status status of
              Inl e \<Rightarrow> Inl e
            | Inr _ \<Rightarrow> Inr (Some content))))"

text \<open>\<open>except Exception: return None\<close>.\<close>

definition download_image ::
  "(string \<Rightarrow> (string \<times> string) list \<Rightarrow> nat \<Rightarrow> http_result) \<Rightarrow> filesystem \<Rightarrow>
   string \<Rightarrow> string option \<Rightarrow> bytes option" where
  "download_image get fs url base_path =
    (case download_image_try get fs url base_path of
       Inl e \<Rightarrow> None
     | Inr r \<Rightarrow> r)"


section \<open>Base64 (\<open>base64.b64encode\<close>)\<close>

definition b64_alphabet :: string where
  "b64_alphabet = ''ABCDEFGHIJKLMNOPQRSTUVWXYZabcdefghijklmnopqrstuvwxyz0123456789+/''"

definition b64_char :: "nat \<Rightarrow> char" where
  "b64_char k = b64_alphabet ! k"

fun b64encode :: "bytes \<Rightarrow> string" where
  "b64encode [] = []"
| "b64encode [a] =
    (let n = unat a
     in [b64_char (n div 4), b64_char (n mod 4 * 16), CHR ''='', CHR ''=''])"
| "b64encode [a, b] =
    (let n = unat a * 256 + unat b
     in [b64_char (n div 1024), b64_char (n div 16 mod 64), b64_char (n mod 16 * 4), CHR ''=''])"
| "b64encode (a # b # c # rest) =
    (let n = unat a * 65536 + unat b * 256 + unat c
     in [b64_char (n div 262144), b64_char (n div 4096 mod 64),
         b64_char (n div 64 mod 64), b64_char (n mod 64)] @ b64encode rest)"

section \<open>The collaborators of the converter\<close>

text \<open>
  A parsed document is a forest: text (and every other leaf) and tags with their
  attribute dictionary and children. The parser and the serialiser
  (\<open>BeautifulSoup(html, 'html.parser')\<close>, \<open>str(soup)\<close>), the markup renderer, the
  HTTP client, the imaging library, the text codec, the temporary-file service
  and the external PDF renderer are parameters of the model.
\<close>

type_synonym attrs = "(string \<times> string) list"

datatype node = Text string | Tag string attrs "node list"

text \<open>
  Writing the text of the temporary file: \<open>write\<close> raises (nothing is registered
  yet), closing the file at the end of the \<open>with\<close> block raises, or the text is
  written. Each case carries the bytes that reached the file.
\<close>

datatype write_result = WriteRaises error bytes | CloseRaises error bytes | Written bytes

record env =
  http_get :: "string \<Rightarrow> (string \<times> string) list \<Rightarrow> nat \<Rightarrow> http_result"
  imaging_lib :: imaging
  html_parse :: "string \<Rightarrow> node list"
  html_str :: "node list \<Rightarrow> string"
  markdown_convert :: "string list \<Rightarrow> string \<Rightarrow> error + string"
  utf8_decode :: "bytes \<Rightarrow> string option"
  temp_name :: "filesystem \<Rightarrow> string \<Rightarrow> error + string"
  write_text :: "string \<Rightarrow> write_result"
  unlink_allowed :: "string \<Rightarrow> bool"
  wkhtmltopdf :: "bytes \<Rightarrow> options \<Rightarrow> string option \<Rightarrow> error + bytes"

section \<open>Image embedder (\<open>embed_images_in_html\<close>)\<close>

definition data_uri_prefix :: string where
  "data_uri_prefix = ''data:image/jpeg;base64,''"

definition responsive_style :: string where
  "responsive_style = ''max-width: 100%; height: auto;''"

text \<open>
  The body of the loop, on the attribute dictionary of one \<open>img\<close> tag. The
  transcoder is called with the image data only, that is with the default values
  of its two other parameters.
\<close>

definition embed_img_tag :: "env \<Rightarrow> filesystem \<Rightarrow> string option \<Rightarrow> attrs \<Rightarrow> attrs" where
  "embed_img_tag E fs base_path tag_attrs =
    (case map_of tag_attrs ''src'' of
       None \<Rightarrow> tag_attrs
     | Some src \<Rightarrow>
        if src = [] then tag_attrs
        else
         (case download_image (http_get E) fs src base_path of
            None \<Rightarrow> tag_attrs
          | Some image_data \<Rightarrow>
             if image_data = [] then tag_attrs
             else
              (let optimized_data =
                     optimize_image (imaging_lib E) image_data default_max_width default_quality;
                   base64_data = b64encode optimized_data;
                   attrs1 = AList.update ''src'' (data_uri_prefix @ base64_data) tag_attrs;
                   style = (case map_of attrs1 ''style'' of None \<Rightarrow> [] | Some s \<Rightarrow> s);
                   style' = (if \<not> str_contains ''max-width'' style
                             then style @ responsive_style else style)
               in AList.update ''style'' style' attrs1)))"

text \<open>\<open>soup.find_all('img')\<close> reaches every \<open>img\<close> tag of the forest, in document order.\<close>

fun embed_node :: "env \<Rightarrow> filesystem \<Rightarrow> string option \<Rightarrow> node \<Rightarrow> node" where
  "embed_node E fs base_path (Text s) = Text s"
| "embed_node E fs base_path (Tag tag_name tag_attrs children) =
    Tag tag_name
      (if tag_name = ''img'' then embed_img_tag E fs base_path tag_attrs else tag_attrs)
      (map (embed_node E fs base_path) children)"

definition embed_images_in_html :: "env \<Rightarrow> filesystem \<Rightarrow> string \<Rightarrow> string option \<Rightarrow> string" where
  "embed_images_in_html E fs html_content base_path =
    html_str E (map (embed_node E fs base_path) (html_parse E html_content))"

section \<open>Markup renderer (\<open>markdown_to_html\<close>)\<close>

definition markdown_extensions :: "string list" where
  "markdown_extensions =
    [''markdown.extensions.tables'',
     ''markdown.extensions.fenced_code'',
     ''markdown.extensions.codehilite'',
     ''markdown.extensions.toc'']"

definition markdown_to_html :: "env \<Rightarrow> string \<Rightarrow> error + string" where
  "markdown_to_html E markdown_content = markdown_convert E markdown_extensions markdown_content"


section \<open>Pipeline (\<open>convert_to_pdf\<close>) and cleanup\<close>

text \<open>
  The state a conversion reads and changes: the file system and the fields of the
  converter object.
\<close>

record state =
  files :: filesystem
  temp_files :: "string list"
  pdf_options :: options
  config :: "string option"

definition init :: "string option \<Rightarrow> filesystem \<Rightarrow> state" where
  "init wkhtmltopdf_path fs =
    \<lparr> files = fs, temp_files = [], pdf_options = pdf_options_init,
      config = (if truthy wkhtmltopdf_path then wkhtmltopdf_path else None) \<rparr>"

definition read_markdown_file :: "env \<Rightarrow> filesystem \<Rightarrow> string \<Rightarrow> error + string" where
  "read_markdown_file E fs file_path =
    (case read_bytes fs file_path of
       Inl e \<Rightarrow> Inl (Wrapped ''Error reading markdown file: '' e)
     | Inr b \<Rightarrow>
        (case utf8_decode E b of
           None \<Rightarrow> Inl (Wrapped ''Error reading markdown file: '' UnicodeError)
         | Some s \<Rightarrow> Inr s))"

text \<open>\<open>os.unlink\<close>: removes a file; raises on a missing path, a directory, or when removal is refused.\<close>

definition unlink :: "env \<Rightarrow> filesystem \<Rightarrow> string \<Rightarrow> error + filesystem" where
  "unlink E fs p =
    (case fs p of
       None \<Rightarrow> Inl FileNotFoundError
     | Some Directory \<Rightarrow> Inl IsADirectoryError
     | Some _ \<Rightarrow> (if unlink_allowed E p then Inr (fs(p := None)) else Inl PermissionError))"

text \<open>The loop of \<open>cleanup\<close>: each removal is tried on its own and its exception dropped.\<close>

fun cleanup_files :: "env \<Rightarrow> filesystem \<Rightarrow> string list \<Rightarrow> filesystem" where
  "cleanup_files E fs [] = fs"
| "cleanup_files E fs (temp_file # rest) =
    cleanup_files E
      (if exists_path fs temp_file then
         (case unlink E fs temp_file of Inl e \<Rightarrow> fs | Inr fs' \<Rightarrow> fs')
       else fs)
      rest"

definition cleanup :: "env \<Rightarrow> state \<Rightarrow> state" where
  "cleanup E st = st\<lparr> files := cleanup_files E (files st) (temp_files st), temp_files := [] \<rparr>"

text \<open>Lines 240--247: the defaults for the title and the destination.\<close>

definition job_title :: "string option \<Rightarrow> string \<Rightarrow> string" where
  "job_title title markdown_file_path =
    (case title of
       None \<Rightarrow> stem (Path markdown_file_path)
     | Some t \<Rightarrow> if t = [] then stem (Path markdown_file_path) else t)"

definition default_output_path :: "string \<Rightarrow> pure_path" where
  "default_output_path markdown_file_path =
    (let md_path = Path markdown_file_path
     in joinpath (parent md_path) (stem md_path @ ''.pdf''))"

definition job_output_path :: "string option \<Rightarrow> string \<Rightarrow> string" where
  "job_output_path output_pdf_path markdown_file_path =
    (case output_pdf_path of
       None \<Rightarrow> str_path (default_output_path markdown_file_path)
     | Some p \<Rightarrow> if p = [] then str_path (default_output_path markdown_file_path) else p)"

text \<open>\<open>pdfkit.from_file\<close>: the renderer reads the input file and writes the output file.\<close>

definition pdfkit_from_file ::
  "env \<Rightarrow> filesystem \<Rightarrow> string \<Rightarrow> string \<Rightarrow> options \<Rightarrow> string option \<Rightarrow> error + filesystem" where
  "pdfkit_from_file E fs input output opts configuration =
    (case read_bytes fs input of
       Inl e \<Rightarrow> Inl e
     | Inr html \<Rightarrow>
        (case wkhtmltopdf E html opts configuration of
           Inl e \<Rightarrow> Inl e
         | Inr pdf \<Rightarrow> Inr (fs(output \<mapsto> File pdf))))"

text \<open>
  Lines 249--256: the temporary file is created, the document written to it, its
  path appended to \<open>temp_files\<close> inside the \<open>with\<close> block, and the renderer run
  after the block has closed the file.
\<close>

definition export_pdf :: "env \<Rightarrow> state \<Rightarrow> string \<Rightarrow> string \<Rightarrow> (error + string) \<times> state" where
  "export_pdf E st full_html output_pdf_path =
    (case temp_name E (files st) ''.html'' of
       Inl e \<Rightarrow> (Inl e, st)
     | Inr temp_html_path \<Rightarrow>
        (case write_text E full_html of
           WriteRaises e b \<Rightarrow>
             (Inl e, st\<lparr> files := (files st)(temp_html_path \<mapsto> File b) \<rparr>)
         | CloseRaises e b \<Rightarrow>
             (Inl e, st\<lparr> files := (files st)(temp_html_path \<mapsto> File b),
                          temp_files := temp_files st @ [temp_html_path] \<rparr>)
         | Written b \<Rightarrow>
             (let st1 = st\<lparr> files := (files st)(temp_html_path \<mapsto> File b),
                             temp_files := temp_files st @ [temp_html_path] \<rparr>
              in case pdfkit_from_file E (files st1) temp_html_path output_pdf_path
                        (pdf_options st1) (config st1) of
                   Inl e \<Rightarrow> (Inl e, st1)
                 | Inr fs' \<Rightarrow> (Inr output_pdf_path, st1\<lparr> files := fs' \<rparr>))))"

text \<open>The body of the \<open>try\<close> block.\<close>

definition convert_to_pdf_try ::
  "env \<Rightarrow> state \<Rightarrow> string \<Rightarrow> string option \<Rightarrow> string option \<Rightarrow> (error + string) \<times> state" where
  "convert_to_pdf_try E st markdown_file_path output_pdf_path title =
    (case read_markdown_file E (files st) markdown_file_path of
       Inl e \<Rightarrow> (Inl e, st)
     | Inr markdown_content \<Rightarrow>
        (case markdown_to_html E markdown_content of
           Inl e \<Rightarrow> (Inl e, st)
         | Inr html_content \<Rightarrow>
            (let html_with_images =
                   embed_images_in_html E (files st) html_content (Some markdown_file_path);
                 full_html =
                   create_full_html html_with_images (Some (job_title title markdown_file_path))
             in export_pdf E st full_html (job_output_path output_pdf_path markdown_file_path))))"

text \<open>
  \<open>except Exception as e: raise Exception(f"Error converting to PDF: {e}")\<close> and
  \<open>finally: self.cleanup()\<close>.
\<close>

definition convert_to_pdf ::
  "env \<Rightarrow> state \<Rightarrow> string \<Rightarrow> string option \<Rightarrow> string option \<Rightarrow> (error + string) \<times> state" where
  "convert_to_pdf E st markdown_file_path output_pdf_path title =
    (case convert_to_pdf_try E st markdown_file_path output_pdf_path title of
       (Inl e, st') \<Rightarrow> (Inl (Wrapped ''Error converting to PDF: '' e), cleanup E st')
     | (Inr p, st') \<Rightarrow> (Inr p, cleanup E st'))"


section \<open>A concrete instance of the collaborators\<close>

text \<open>
  To run the model on concrete data the parameters are instantiated as follows.
  An image file is a mode byte (0 for \<open>RGB\<close>, 1 for \<open>RGBA\<close>, 2 for \<open>P\<close>, anything else
  for \<open>F\<close>), the width and the height on two bytes each, and the raster; resizing
  refuses empty sizes and the encoder refuses the modes JPEG cannot hold, as the
  imaging library of the converter does.
\<close>

definition sample_mode :: "8 word \<Rightarrow> string" where
  "sample_mode b = (if b = 0 then ''RGB'' else if b = 1 then ''RGBA'' else if b = 2 then ''P'' else ''F'')"

fun sample_open :: "bytes \<Rightarrow> error + image" where
  "sample_open (m # wh # wl # hh # hl # rest) =
    Inr \<lparr> mode = sample_mode m,
          width = int (unat wh) * 256 + int (unat wl),
          height = int (unat hh) * 256 + int (unat hl),
          raster = map unat rest \<rparr>"
| "sample_open _ = Inl (LibraryError ''cannot identify image file'')"

definition sample_resize :: "image \<Rightarrow> int \<times> int \<Rightarrow> string \<Rightarrow> error + image" where
  "sample_resize img sz f =
    (if fst sz < 1 \<or> snd sz < 1 then Inl (LibraryError ''height and width must be > 0'')
     else Inr (img\<lparr> width := fst sz, height := snd sz, raster := [] \<rparr>))"

definition sample_save :: "image \<Rightarrow> string \<Rightarrow> int \<Rightarrow> bool \<Rightarrow> error + bytes" where
  "sample_save img fmt quality optimize =
    (if mode img = ''RGB'' then
       Inr [0xFF, 0xD8, of_int (width img div 256), of_int (width img),
            of_int (height img div 256), of_int (height img), of_int quality]
     else Inl (LibraryError ''cannot write mode as JPEG''))"

definition sample_imaging :: imaging where
  "sample_imaging =
    \<lparr> Image_open = sample_open,
      convert = (\<lambda>img m. Inr (img\<lparr> mode := m \<rparr>)),
      resize = sample_resize,
      save = sample_save \<rparr>"

text \<open>An \<open>RGB\<close> image 3200 pixels wide and 7 high, and one 500 wide and 300 high.\<close>

definition image_3200x7 :: bytes where
  "image_3200x7 = [0, 0x0C, 0x80, 0, 7]"

definition image_500x300 :: bytes where
  "image_500x300 = [0, 0x01, 0xF4, 0x01, 0x2C]"

text \<open>
  One URL answers with an image, one with status 404, one with status 300 and a
  body; every other request fails in transport.
\<close>

definition sample_http :: "string \<Rightarrow> (string \<times> string) list \<Rightarrow> nat \<Rightarrow> http_result" where
  "sample_http url headers timeout =
    (if url = ''http://example.org/logo.png'' then Response 200 image_3200x7
     else if url = ''http://example.org/gone.png'' then Response 404 [0x41]
     else if url = ''http://example.org/choices'' then Response 300 [0x41]
     else TransportError)"

text \<open>
  The parser of this instance sees no markup: the whole input is one text node.
  Text is encoded one byte for each character.
\<close>

fun sample_str :: "node list \<Rightarrow> string" where
  "sample_str [] = []"
| "sample_str (Text s # ns) = s @ sample_str ns"
| "sample_str (Tag t a c # ns) = sample_str ns"

definition sample_temp_name :: "filesystem \<Rightarrow> string \<Rightarrow> error + string" where
  "sample_temp_name fs sfx =
    (if fs (''/tmp/tmp0'' @ sfx) = None then Inr (''/tmp/tmp0'' @ sfx)
     else Inl (LibraryError ''no usable temporary file name''))"

definition sample_env :: env where
  "sample_env =
    \<lparr> http_get = sample_http,
      imaging_lib = sample_imaging,
      html_parse = (\<lambda>s. [Text s]),
      html_str = sample_str,
      markdown_convert = (\<lambda>exts s. Inr (''<p>'' @ s @ ''</p>'')),
      utf8_decode = (\<lambda>b. Some (map (\<lambda>w. char_of (unat w)) b)),
      temp_name = sample_temp_name,
      write_text = (\<lambda>s. Written (map (\<lambda>c. of_nat (of_char c)) s)),
      unlink_allowed = (\<lambda>p. True),
      wkhtmltopdf = (\<lambda>html opts c. Inr [0x25, 0x50, 0x44, 0x46]) \<rparr>"

text \<open>The same instance on a device where writing the temporary file fails.\<close>

definition full_disk_env :: env where
  "full_disk_env = sample_env\<lparr> write_text := (\<lambda>s. WriteRaises (LibraryError ''No space left on device'') []) \<rparr>"

text \<open>A file system with one markup file.\<close>

definition sample_fs :: filesystem where
  "sample_fs = [''/docs/report.md'' \<mapsto> File [0x23, 0x20, 0x48, 0x69]]"

section \<open>Properties of the document assembler\<close>

text \<open>
  C9 (as the specification states it, refuted): called with the empty title, the
  assembler does not produce the document that carries the fallback title.
\<close>

theorem create_full_html_empty_title_counterexample:
  "create_full_html '''' (Some '''') \<noteq> create_full_html '''' (Some ''Converted Document'')"
  by (simp add: create_full_html_def)

text \<open>
  C9 (amended): the fallback title \<open>Converted Document\<close> is used exactly when the title
  argument is omitted; a title that is passed, the empty one included, is placed
  between \<open><title>\<close> and \<open></title>\<close> as it is.
\<close>

theorem create_full_html_title:
  \<open>create_full_html h None = create_full_html h (Some ''Converted Document'') \<and>
   create_full_html h (Some t) =
     ''\<newline>        <!DOCTYPE html>\<newline>        <html>\<newline>        <head>\<newline>''
     @ ''            <meta charset="UTF-8">\<newline>''
     @ ''            <title>'' @ t @ ''</title>\<newline>''
     @ ''            '' @ css_styles @ ''\<newline>''
     @ ''        </head>\<newline>        <body>\<newline>''
     @ ''            '' @ h @ ''\<newline>''
     @ ''        </body>\<newline>        </html>\<newline>        ''\<close>
  by (simp add: create_full_html_def default_title_def)

end
